theory Spec2Isabelle
  imports Complex_Main
begin

section \<open>Errors\<close>

text \<open>
  The sources signal failure in three ways: \<^verbatim>\<open>OPENVINO_ASSERT\<close> throws with a
  message, \<^verbatim>\<open>assert\<close> aborts when a size precondition of a vector access is
  broken (and the access behind it is out of range when assertions are compiled out), and a
  null \<^verbatim>\<open>shared_ptr\<close> may be dereferenced. Each is a value of \<open>error\<close>;
  a function that can fail returns \<open>error + 'a\<close> with \<open>Inl\<close> for the failure.
\<close>

datatype error =
    Fatal string
  | AssertFailed
  | OutOfRange
  | NullDereference

section \<open>Descriptor and key model\<close>

subsection \<open>Element types\<close>

text \<open>
  Modelled from the spec: \<^verbatim>\<open>ov::element::Type\<close> is declared outside these
  sources. The "numeric element type" of a memory descriptor is an enumeration; the
  constructors are the element types the sources name (\<^verbatim>\<open>undefined\<close>,
  \<^verbatim>\<open>bf16\<close>, \<^verbatim>\<open>f16\<close>, \<^verbatim>\<open>f32\<close>, \<^verbatim>\<open>i4\<close>,
  \<^verbatim>\<open>i8\<close>, \<^verbatim>\<open>u4\<close>, \<^verbatim>\<open>u8\<close>, \<^verbatim>\<open>nf4\<close>) and the
  remaining members of the enumeration. \<^verbatim>\<open>undefined\<close> is written
  \<open>undefined_t\<close>.
\<close>

datatype Type =
    undefined_t | dynamic | boolean | bf16 | f16 | f32 | f64
  | i4 | i8 | i16 | i32 | i64
  | u1 | u4 | u8 | u16 | u32 | u64
  | nf4 | f8e4m3 | f8e5m2 | string_t

subsection \<open>Memory and the fully-connected attributes\<close>

type_synonym VectorDims = "nat list"

text \<open>
  Modelled from the spec: \<^verbatim>\<open>IMemory\<close> (cpu\_memory.h) is declared outside these
  sources. \<^verbatim>\<open>FCAttrs\<close> reads of a memory object only
  \<^verbatim>\<open>getShape().getStaticDims()\<close>, so a memory object is its static dimensions.
  A \<^verbatim>\<open>MemoryCPtr\<close> is a shared pointer that may be null: \<open>Memory option\<close>.
\<close>

record Memory =
  getStaticDims :: VectorDims

type_synonym MemoryCPtr = "Memory option"

text \<open>
  \<^verbatim>\<open>struct FCAttrs\<close> (fullyconnected\_config.hpp). The dequantization scales are a
  \<^verbatim>\<open>std::vector<float>\<close>; the sources only ever read its size.
\<close>

record FCAttrs =
  withBias :: bool
  weightsNonTransposed :: bool
  sparseWeights :: bool
  dequantizationScales :: "real list"
  decompressionSubtractPtr :: MemoryCPtr
  decompressionMultiplyPtr :: MemoryCPtr

text \<open>
  The default member initialisers of \<^verbatim>\<open>FCAttrs\<close>: all flags false, no scales, both
  decompression pointers null.
\<close>

definition FCAttrs_default :: FCAttrs where
  "FCAttrs_default =
     \<lparr>withBias = False, weightsNonTransposed = False, sparseWeights = False,
      dequantizationScales = [], decompressionSubtractPtr = None,
      decompressionMultiplyPtr = None\<rparr>"

text \<open>
  \<^verbatim>\<open>FCAttrs::operator==\<close>. The C++ accumulates \<^verbatim>\<open>result = result && ...\<close>
  over six statements; \<^verbatim>\<open>&&\<close> evaluates left to right and stops at the first false
  operand. The fourth statement tests both multiply pointers before it reads their
  shapes. The fifth statement tests \<^verbatim>\<open>decompressionSubtractPtr\<close> of the left
  operand and \<^verbatim>\<open>decompressionMultiplyPtr\<close> of the right operand, and then reads
  the shape of the left operand's multiply tensor and of the right operand's subtract
  tensor: either read may go through a null pointer.
\<close>

definition FCAttrs_eq :: "FCAttrs \<Rightarrow> FCAttrs \<Rightarrow> error + bool" where
  "FCAttrs_eq lhs rhs =
     (let result = True;
          result = (result \<and> withBias lhs = withBias rhs);
          result = (result \<and> weightsNonTransposed lhs = weightsNonTransposed rhs);
          result = (result \<and> sparseWeights lhs = sparseWeights rhs);
          result = (result \<and>
             (case decompressionMultiplyPtr lhs of
                None \<Rightarrow> False
              | Some m \<Rightarrow>
                 (case decompressionMultiplyPtr rhs of
                    None \<Rightarrow> False
                  | Some m' \<Rightarrow> getStaticDims m = getStaticDims m')))
      in if result \<and> decompressionSubtractPtr lhs \<noteq> None
              \<and> decompressionMultiplyPtr rhs \<noteq> None
         then (case decompressionMultiplyPtr lhs of
                 None \<Rightarrow> Inl NullDereference
               | Some m \<Rightarrow>
                  (case decompressionSubtractPtr rhs of
                     None \<Rightarrow> Inl NullDereference
                   | Some s' \<Rightarrow>
                      Inr (getStaticDims m = getStaticDims s'
                           \<and> length (dequantizationScales lhs)
                               = length (dequantizationScales rhs))))
         else Inr False)"

subsection \<open>Memory descriptors and configurations\<close>

text \<open>
  Modelled from the spec: \<^verbatim>\<open>LayoutType\<close> is declared outside these sources. It is
  the "physical layout tag" of a descriptor; the constructors are the layouts for which
  \<^verbatim>\<open>BlockedDescCreator::getCommonCreators()\<close> registers a creator, among them
  \<^verbatim>\<open>ncsp\<close>, the only one the sources name.
\<close>

datatype LayoutType = nspc | ncsp | nCsp8c | nCsp16c

text \<open>
  Modelled from the spec: \<^verbatim>\<open>Shape\<close> is declared outside these sources. A shape is
  "static or symbolic/dynamic dims"; a dimension that is not known yet is \<open>None\<close>. The
  rank is the length of the list.
\<close>

type_synonym Shape = "nat option list"

text \<open>
  Modelled from the spec: \<^verbatim>\<open>MemoryDesc\<close> is declared outside these sources. A memory
  descriptor is "shape (static or symbolic/dynamic dims), numeric element type, physical
  layout tag"; the fields are named after the methods \<^verbatim>\<open>getPrecision()\<close> and
  \<^verbatim>\<open>getShape()\<close> that the sources call.
\<close>

record MemoryDesc =
  getPrecision :: Type
  getShape :: Shape
  layoutTag :: LayoutType

text \<open>
  Modelled from the spec: \<^verbatim>\<open>MemoryDesc::hasLayoutType\<close> is declared outside these
  sources. The compliance check tests "layout tag equal".
\<close>

definition hasLayoutType :: "MemoryDesc \<Rightarrow> LayoutType \<Rightarrow> bool" where
  "hasLayoutType desc l = (layoutTag desc = l)"

text \<open>
  Modelled from the spec: \<^verbatim>\<open>BlockedDescCreator\<close> is declared outside these sources.
  \<^verbatim>\<open>creatorsMap.at(l)->createSharedDesc(type, shape)\<close> builds the "new descriptors
  whose shapes are unchanged but whose types/layouts are coerced": the descriptor of layout
  \<open>l\<close> with the type and the shape it is given.
\<close>

definition createSharedDesc :: "LayoutType \<Rightarrow> Type \<Rightarrow> Shape \<Rightarrow> MemoryDesc" where
  "createSharedDesc l newType shape =
     \<lparr>getPrecision = newType, getShape = shape, layoutTag = l\<rparr>"

text \<open>\<^verbatim>\<open>struct MemoryDescArgs\<close> (memory\_arguments.hpp).\<close>

record MemoryDescArgs =
  src :: "MemoryDesc list"
  dst :: "MemoryDesc list"

text \<open>
  Modelled from the spec: \<^verbatim>\<open>executor::Config<Attrs>\<close> is declared outside these
  sources. It is "descriptors, attrs, postOps", built and read in the sources as
  \<^verbatim>\<open>FCConfig{descs, attrs, postOps}\<close>, \<^verbatim>\<open>key.descs\<close>, \<^verbatim>\<open>key.attrs\<close> and
  \<^verbatim>\<open>key.postOps\<close>. The template parameter is the type variable \<open>'a\<close>; the
  post-operations are opaque to everything modelled here and are the type variable \<open>'p\<close>.
\<close>

record ('a, 'p) Config =
  descs :: MemoryDescArgs
  attrs :: 'a
  postOps :: 'p

section \<open>Precision translation\<close>

subsection \<open>Type masks and matching\<close>

text \<open>
  Modelled from the spec: \<^verbatim>\<open>TypeMask\<close> is declared outside these sources. A rule
  matches "when each input type lies in its declared type-mask":
  a mask is the set of element types it covers, and \<^verbatim>\<open>pattern & value\<close> is
  membership. The aliases \<^verbatim>\<open>_f32\<close>, \<^verbatim>\<open>_u8 | _i8\<close>, \<^verbatim>\<open>_half_float\<close> and
  \<^verbatim>\<open>_any\<close> are the sets \<open>{f32}\<close>, \<open>{u8, i8}\<close>, \<open>{f16, bf16}\<close> and \<open>UNIV\<close>.
\<close>

type_synonym TypeMask = "Type set"

text \<open>\<^verbatim>\<open>bool match(const TypeMask pattern, const Type value)\<close>.\<close>

definition match :: "TypeMask \<Rightarrow> Type \<Rightarrow> bool" where
  "match pattern v = (v \<in> pattern)"

text \<open>
  \<^verbatim>\<open>bool match(const std::vector<TypeMask>& patterns, const std::vector<Type>& values)\<close>:
  asserts that there are at least as many patterns as values, then \<^verbatim>\<open>std::equal\<close>
  compares each value with the pattern at its position.
\<close>

definition match_vec :: "TypeMask list \<Rightarrow> Type list \<Rightarrow> error + bool" where
  "match_vec patterns vals =
     (if length vals \<le> length patterns
      then Inr (list_all (\<lambda>(v, pattern). v \<in> pattern) (zip vals patterns))
      else Inl AssertFailed)"

subsection \<open>Translation policies\<close>

type_synonym InOutTypes = "Type list \<times> Type"

type_synonym Policy = "Type list \<Rightarrow> Type \<Rightarrow> nat \<Rightarrow> error + Type"

type_synonym PortsConfigurationImpl = "Type list \<Rightarrow> Type \<Rightarrow> error + InOutTypes"

type_synonym InOutTypeMask = "TypeMask list \<times> TypeMask"

type_synonym TypeMapping = "(InOutTypeMask \<times> PortsConfigurationImpl) list"

text \<open>
  The four policies of precision\_translation.hpp. \<^verbatim>\<open>out\<close> keeps the declared output
  type, \<^verbatim>\<open>in<bypassId>\<close> copies a named input (asserting that it exists),
  \<^verbatim>\<open>bypass\<close> passes the input of its own port through (reading
  \<^verbatim>\<open>inputs[idx]\<close>, out of range when the port has no input), and
  \<^verbatim>\<open>just<type>\<close> forces a literal type.
\<close>

text \<open>
  Modelled from the spec: \<^verbatim>\<open>TypeMaskAlias::fxx\<close> is declared outside these sources.
  It is the template argument that asks \<^verbatim>\<open>just\<close> for "a default floating type":
  the element type of undefined precision.
\<close>

definition fxx :: Type where
  "fxx = undefined_t"

definition out :: Policy where
  "out inputs output idx = Inr output"

definition in_id :: "nat \<Rightarrow> Policy" where
  "in_id bypassId inputs output idx =
     (if bypassId < length inputs then Inr (inputs ! bypassId) else Inl AssertFailed)"

definition bypass :: Policy where
  "bypass inputs output idx =
     (if idx < length inputs then Inr (inputs ! idx) else Inl OutOfRange)"

text \<open>
  \<^verbatim>\<open>just<type>\<close> and its specialisation \<^verbatim>\<open>just<TypeMaskAlias::fxx>\<close>, which
  answers \<^verbatim>\<open>defaultFloatPrecision()\<close> instead of its template argument. That
  function is declared outside these sources and depends on the hardware; what it answers
  is the first parameter.
\<close>

definition just :: "Type \<Rightarrow> Type \<Rightarrow> Policy" where
  "just defaultFloatPrecision t inputs output idx =
     Inr (if t = fxx then defaultFloatPrecision else t)"

text \<open>
  \<^verbatim>\<open>PortsTranslation<SrcPolicy, WeiPolicy, BiasPolicy, DstPolicy>\<close>: the three input
  policies are run at ports 0, 1 and 2, the destination policy at port 0.
\<close>

definition PortsTranslation ::
  "Policy \<Rightarrow> Policy \<Rightarrow> Policy \<Rightarrow> Policy \<Rightarrow> PortsConfigurationImpl" where
  "PortsTranslation SrcPolicy WeiPolicy BiasPolicy DstPolicy inputs output =
     (case SrcPolicy inputs output 0 of
        Inl e \<Rightarrow> Inl e
      | Inr s \<Rightarrow>
     (case WeiPolicy inputs output 1 of
        Inl e \<Rightarrow> Inl e
      | Inr w \<Rightarrow>
     (case BiasPolicy inputs output 2 of
        Inl e \<Rightarrow> Inl e
      | Inr b \<Rightarrow>
     (case DstPolicy inputs output 0 of
        Inl e \<Rightarrow> Inl e
      | Inr d \<Rightarrow> Inr ([s, w, b], d)))))"

definition pt :: "Policy \<Rightarrow> Policy \<Rightarrow> Policy \<Rightarrow> Policy \<Rightarrow> PortsConfigurationImpl" where
  "pt = PortsTranslation"

definition everyone :: "Policy \<Rightarrow> PortsConfigurationImpl" where
  "everyone p = PortsTranslation p p p p"

subsection \<open>Looking a configuration up in a rule table\<close>

text \<open>
  The loop of \<^verbatim>\<open>getTypeConfiguration\<close> over the entries of the mapping, in declared
  order. An entry is skipped when its input pattern does not match or (tested second)
  its output pattern does not match; the first entry that is not skipped answers with its
  translator. After the last entry every port is forced to \<^verbatim>\<open>f32\<close>.
\<close>

fun getTypeConfiguration_loop :: "TypeMapping \<Rightarrow> Type list \<Rightarrow> Type \<Rightarrow> error + InOutTypes" where
  "getTypeConfiguration_loop [] inputs output = Inr (replicate (length inputs) f32, f32)"
| "getTypeConfiguration_loop (entry # mapping) inputs output =
     (case match_vec (fst (fst entry)) inputs of
        Inl e \<Rightarrow> Inl e
      | Inr m \<Rightarrow>
          if \<not> m \<or> \<not> match (snd (fst entry)) output
          then getTypeConfiguration_loop mapping inputs output
          else (snd entry) inputs output)"

text \<open>
  \<^verbatim>\<open>getTypeConfiguration\<close>: the inputs are the precisions of the source descriptors,
  the output is the precision of \<^verbatim>\<open>descriptors.dst[0]\<close>, which must exist.
\<close>

definition getTypeConfiguration :: "TypeMapping \<Rightarrow> MemoryDescArgs \<Rightarrow> error + InOutTypes" where
  "getTypeConfiguration mapping descriptors =
     (let inputs = map getPrecision (src descriptors)
      in case dst descriptors of
           [] \<Rightarrow> Inl OutOfRange
         | d # _ \<Rightarrow> getTypeConfiguration_loop mapping inputs (getPrecision d))"

section \<open>Compliance check and descriptor coercion\<close>

text \<open>
  \<^verbatim>\<open>struct LayoutConfig\<close> of fullyconnected\_implementations.cpp; its members
  \<^verbatim>\<open>src\<close> and \<^verbatim>\<open>dst\<close> carry here the names of the locals that read them.
\<close>

record LayoutConfig =
  srcLayoutConfig :: "LayoutType list"
  dstLayoutConfig :: LayoutType

text \<open>
  Modelled from the spec: \<^verbatim>\<open>one_of\<close> is declared outside these sources. The check
  asks for a type "equal or declared any": \<^verbatim>\<open>one_of(val, a, b)\<close> holds when the
  value equals one of the two items.
\<close>

definition one_of :: "'x \<Rightarrow> 'x \<Rightarrow> 'x \<Rightarrow> bool" where
  "one_of val a b = (val = a \<or> val = b)"

text \<open>
  The loop of \<^verbatim>\<open>fullyMatchConfiguration\<close> over the source descriptors, from index
  \<open>i\<close> on: it answers false at the first descriptor whose precision is neither the
  configured type nor \<^verbatim>\<open>undefined\<close>, or whose layout is not the configured one.
\<close>

fun fullyMatchConfiguration_loop ::
  "nat \<Rightarrow> MemoryDesc list \<Rightarrow> Type list \<Rightarrow> LayoutType list \<Rightarrow> bool" where
  "fullyMatchConfiguration_loop i [] srcTypeConfig srcLayouts = True"
| "fullyMatchConfiguration_loop i (desc # rest) srcTypeConfig srcLayouts =
     (if (\<not> one_of (getPrecision desc) (srcTypeConfig ! i) undefined_t)
         \<or> \<not> hasLayoutType desc (srcLayouts ! i)
      then False
      else fullyMatchConfiguration_loop (Suc i) rest srcTypeConfig srcLayouts)"

text \<open>
  \<^verbatim>\<open>fullyMatchConfiguration\<close>: two assertions on the sizes, the loop over the
  sources, then the same test on \<^verbatim>\<open>currentDescriptors.dst[0]\<close>.
\<close>

definition fullyMatchConfiguration ::
  "MemoryDescArgs \<Rightarrow> InOutTypes \<Rightarrow> LayoutConfig \<Rightarrow> error + bool" where
  "fullyMatchConfiguration currentDescriptors typeConfig layoutConfig =
     (let srcTypeConfig = fst typeConfig;
          srcLayouts = srcLayoutConfig layoutConfig
      in if \<not> length (src currentDescriptors) \<le> length srcTypeConfig then Inl AssertFailed
         else if \<not> length (src currentDescriptors) \<le> length srcLayouts then Inl AssertFailed
         else if \<not> fullyMatchConfiguration_loop 0 (src currentDescriptors) srcTypeConfig srcLayouts
         then Inr False
         else (case dst currentDescriptors of
                 [] \<Rightarrow> Inl OutOfRange
               | dstDesc # _ \<Rightarrow>
                   if \<not> one_of (getPrecision dstDesc) (snd typeConfig) undefined_t
                      \<or> \<not> hasLayoutType dstDesc (dstLayoutConfig layoutConfig)
                   then Inr False
                   else Inr True))"

text \<open>
  The loop of \<^verbatim>\<open>createOptimalDescriptors\<close> over the source descriptors, from index
  \<open>i\<close> on. A descriptor whose precision is \<^verbatim>\<open>undefined\<close> or already the configured
  type is pushed as it is (\<^verbatim>\<open>||\<close> does not read the configuration when the
  precision is undefined); any other is replaced by the descriptor that the creator of the
  configured layout builds for the configured type and the old shape.
\<close>

fun createOptimalDescriptors_loop ::
  "nat \<Rightarrow> MemoryDesc list \<Rightarrow> Type list \<Rightarrow> LayoutType list \<Rightarrow> error + MemoryDesc list" where
  "createOptimalDescriptors_loop i [] srcTypesConfig srcLayouts = Inr []"
| "createOptimalDescriptors_loop i (desc # rest) srcTypesConfig srcLayouts =
     (let srcPrecision = getPrecision desc;
          pushed =
            (if srcPrecision = undefined_t then Inr desc
             else if \<not> i < length srcTypesConfig then Inl OutOfRange
             else if srcPrecision = srcTypesConfig ! i then Inr desc
             else if \<not> i < length srcLayouts then Inl OutOfRange
             else Inr (createSharedDesc (srcLayouts ! i) (srcTypesConfig ! i) (getShape desc)))
      in case pushed of
           Inl e \<Rightarrow> Inl e
         | Inr d \<Rightarrow>
            (case createOptimalDescriptors_loop (Suc i) rest srcTypesConfig srcLayouts of
               Inl e \<Rightarrow> Inl e
             | Inr ds \<Rightarrow> Inr (d # ds)))"

text \<open>
  \<^verbatim>\<open>createOptimalDescriptors\<close>: the sources, then \<^verbatim>\<open>dst[0]\<close> alone; the result
  has one destination descriptor.
\<close>

definition createOptimalDescriptors ::
  "MemoryDescArgs \<Rightarrow> InOutTypes \<Rightarrow> LayoutConfig \<Rightarrow> error + MemoryDescArgs" where
  "createOptimalDescriptors currentDescriptors typeConfig layoutConfig =
     (let srcTypesConfig = fst typeConfig;
          dstTypeConfig = snd typeConfig
      in case createOptimalDescriptors_loop 0 (src currentDescriptors) srcTypesConfig
                (srcLayoutConfig layoutConfig) of
           Inl e \<Rightarrow> Inl e
         | Inr srcs \<Rightarrow>
            (case dst currentDescriptors of
               [] \<Rightarrow> Inl OutOfRange
             | dstDesc # _ \<Rightarrow>
                 if getPrecision dstDesc = undefined_t \<or> getPrecision dstDesc = dstTypeConfig
                 then Inr \<lparr>src = srcs, dst = [dstDesc]\<rparr>
                 else Inr \<lparr>src = srcs,
                           dst = [createSharedDesc (dstLayoutConfig layoutConfig) dstTypeConfig
                                    (getShape dstDesc)]\<rparr>))"

text \<open>\<^verbatim>\<open>isFullyCompliantCommon\<close>.\<close>

definition isFullyCompliantCommon ::
  "('a, 'p) Config \<Rightarrow> TypeMapping \<Rightarrow> LayoutConfig \<Rightarrow> error + (bool \<times> ('a, 'p) Config)" where
  "isFullyCompliantCommon key typeMapping layoutConfig =
     (case getTypeConfiguration typeMapping (descs key) of
        Inl e \<Rightarrow> Inl e
      | Inr typeConfig \<Rightarrow>
         (case fullyMatchConfiguration (descs key) typeConfig layoutConfig of
            Inl e \<Rightarrow> Inl e
          | Inr matched \<Rightarrow>
              if matched then Inr (True, key)
              else (case createOptimalDescriptors (descs key) typeConfig layoutConfig of
                      Inl e \<Rightarrow> Inl e
                    | Inr optimalDescriptors \<Rightarrow>
                        Inr (False, \<lparr>descs = optimalDescriptors, attrs = attrs key,
                                     postOps = postOps key\<rparr>))))"

subsection \<open>The tables of the fully-connected implementations\<close>

definition dnnlFCLayoutConfig :: LayoutConfig where
  "dnnlFCLayoutConfig = \<lparr>srcLayoutConfig = [ncsp, ncsp, ncsp], dstLayoutConfig = ncsp\<rparr>"

text \<open>
  \<^verbatim>\<open>dnnlFCTypeMapping\<close>, entry by entry. The ninth entry is written with the mask
  \<^verbatim>\<open>!_i8\<close>; the operator is declared with \<^verbatim>\<open>TypeMask\<close>, outside these sources,
  so the mask it yields is the parameter \<open>not_i8\<close>. The second parameter is what
  \<^verbatim>\<open>defaultFloatPrecision()\<close> answers.
\<close>

definition dnnlFCTypeMapping :: "TypeMask \<Rightarrow> Type \<Rightarrow> TypeMapping" where
  "dnnlFCTypeMapping not_i8 defaultFloatPrecision =
     [(([{bf16}, {bf16}, UNIV], {bf16, f32}),                 pt bypass bypass out out),
      (([{f16}, {f16}, UNIV], {f16, f32}),                    pt bypass bypass out out),
      (([{f32, bf16, f16}, UNIV, UNIV], {i8, u8}),            pt bypass bypass (in_id 0) (in_id 0)),
      (([{f32}, {f16, bf16}, UNIV], UNIV),                    pt bypass bypass (in_id 0) (in_id 0)),
      (([{bf16}, {f16}, UNIV], UNIV),                         pt bypass bypass (in_id 0) (in_id 0)),
      (([{f16}, {bf16}, UNIV], UNIV),                         pt bypass bypass (in_id 0) (in_id 0)),
      (([{u8, i8}, {i8}, UNIV], UNIV),                        pt bypass bypass bypass out),
      (([{f32, bf16}, {u8, nf4, u4, i4}, UNIV], UNIV),        pt bypass bypass (in_id 0) (in_id 0)),
      (([{u8, i8}, not_i8, UNIV], UNIV),
         everyone (just defaultFloatPrecision f32)),
      (([UNIV, UNIV, UNIV], UNIV),
         everyone (just defaultFloatPrecision f32))]"

definition dnnlConvolutionTypeMapping :: "Type \<Rightarrow> TypeMapping" where
  "dnnlConvolutionTypeMapping defaultFloatPrecision =
     [(([{bf16}, {bf16}, UNIV], {bf16, f32}),                 pt bypass bypass out out),
      (([{f16}, {f16}, UNIV], {f16, f32}),                    pt bypass bypass out out),
      (([{f32, bf16, f16}, UNIV, UNIV], {i8, u8}),            pt bypass bypass (in_id 0) (in_id 0)),
      (([{f32}, {f16, bf16}, UNIV], UNIV),                    pt bypass bypass (in_id 0) (in_id 0)),
      (([{bf16}, {f16}, UNIV], UNIV),                         pt bypass bypass (in_id 0) (in_id 0)),
      (([{f16}, {bf16}, UNIV], UNIV),                         pt bypass bypass (in_id 0) (in_id 0)),
      (([{u8, i8}, {i8}, UNIV], UNIV),                        pt bypass bypass out out),
      (([UNIV, UNIV, UNIV], UNIV),
         everyone (just defaultFloatPrecision f32))]"

section \<open>Implementation registry\<close>

text \<open>
  Modelled from the spec: \<^verbatim>\<open>ShapeTolerance\<close> is declared outside these sources. It
  is "shapeTolerance \<open>\<in>\<close> {Agnostic, Dependent}"; the sources write the second value
  \<^verbatim>\<open>ShapeTolerance::Dependant\<close>.
\<close>

datatype ShapeTolerance = Agnostic | Dependant

text \<open>
  \<^verbatim>\<open>class ExecutorImplementation<Attrs>\<close>. Each predicate is a
  \<^verbatim>\<open>std::function\<close>, which may be empty: an \<open>option\<close>. The executor type, the
  operation type and the constructor \<^verbatim>\<open>m_create\<close> are read only when an executor is
  built, which is outside this development, and are left out.
\<close>

record ('a, 'p) ExecutorImplementation =
  m_name :: string
  m_shapeRelation :: ShapeTolerance
  m_isSupported :: "(('a, 'p) Config \<Rightarrow> bool) option"
  m_isFullyCompliant :: "(('a, 'p) Config \<Rightarrow> error + (bool \<times> ('a, 'p) Config)) option"
  m_isShapeSuitable :: "(('a, 'p) Config \<Rightarrow> bool) option"

definition isSupported :: "('a, 'p) ExecutorImplementation \<Rightarrow> ('a, 'p) Config \<Rightarrow> bool" where
  "isSupported impl key =
     (case m_isSupported impl of Some f \<Rightarrow> f key | None \<Rightarrow> False)"

definition isFullyCompliant ::
  "('a, 'p) ExecutorImplementation \<Rightarrow> ('a, 'p) Config \<Rightarrow> error + (bool \<times> ('a, 'p) Config)" where
  "isFullyCompliant impl key =
     (case m_isFullyCompliant impl of Some f \<Rightarrow> f key | None \<Rightarrow> Inr (False, key))"

definition isShapeSuitable :: "('a, 'p) ExecutorImplementation \<Rightarrow> ('a, 'p) Config \<Rightarrow> bool" where
  "isShapeSuitable impl key =
     (case m_isShapeSuitable impl of Some f \<Rightarrow> f key | None \<Rightarrow> False)"

definition isShapeAgnostic :: "('a, 'p) ExecutorImplementation \<Rightarrow> bool" where
  "isShapeAgnostic impl = (m_shapeRelation impl = Agnostic)"

definition name :: "('a, 'p) ExecutorImplementation \<Rightarrow> string" where
  "name impl = m_name impl"

text \<open>
  The entry \<^verbatim>\<open>"fullyconnected_dnnl"\<close> of \<^verbatim>\<open>fullyconnectedImplementations\<close>:
  shape dependent, supported for every key, suitable for every shape, compliance decided by
  \<^verbatim>\<open>isFullyCompliantCommon\<close> on the fully-connected tables.
\<close>

definition fullyconnected_dnnl ::
  "TypeMask \<Rightarrow> Type \<Rightarrow> (FCAttrs, 'p) ExecutorImplementation" where
  "fullyconnected_dnnl not_i8 defaultFloatPrecision =
     \<lparr>m_name = ''fullyconnected_dnnl'',
      m_shapeRelation = Dependant,
      m_isSupported = Some (\<lambda>key. True),
      m_isFullyCompliant =
        Some (\<lambda>key. isFullyCompliantCommon key
                      (dnnlFCTypeMapping not_i8 defaultFloatPrecision) dnnlFCLayoutConfig),
      m_isShapeSuitable = Some (\<lambda>key. True)\<rparr>"

section \<open>Selection engine\<close>

text \<open>
  \<^verbatim>\<open>class ExecutorFactoryNew\<close>: the state that \<^verbatim>\<open>filter\<close> writes and
  \<^verbatim>\<open>select\<close> reads is the vector \<^verbatim>\<open>suitableImplementations\<close>. The constructor
  leaves it empty.
\<close>

record ('a, 'p) ExecutorFactoryNew =
  suitableImplementations :: "('a, 'p) ExecutorImplementation list"

definition ExecutorFactoryNew_ctor :: "('a, 'p) ExecutorFactoryNew" where
  "ExecutorFactoryNew_ctor = \<lparr>suitableImplementations = []\<rparr>"

text \<open>
  The loop of \<^verbatim>\<open>filter\<close> over the registered implementations, highest priority
  first; \<open>suitable\<close> is the vector as pushed so far. An implementation is passed over
  when a priority name is given and is not its name, or when it does not support the key;
  otherwise it is pushed, and the loop breaks after pushing a shape-agnostic one.
\<close>

fun filter_loop ::
  "('a, 'p) ExecutorImplementation list \<Rightarrow> ('a, 'p) Config \<Rightarrow> string \<Rightarrow>
   ('a, 'p) ExecutorImplementation list \<Rightarrow> ('a, 'p) ExecutorImplementation list" where
  "filter_loop [] key implementationPriority suitable = suitable"
| "filter_loop (implementation # rest) key implementationPriority suitable =
     (if implementationPriority \<noteq> [] \<and> name implementation \<noteq> implementationPriority
      then filter_loop rest key implementationPriority suitable
      else if \<not> isSupported implementation key
      then filter_loop rest key implementationPriority suitable
      else if isShapeAgnostic implementation
      then suitable @ [implementation]
      else filter_loop rest key implementationPriority (suitable @ [implementation]))"

text \<open>
  \<^verbatim>\<open>ExecutorFactoryNew::filter\<close>; the first argument is the result of
  \<^verbatim>\<open>getImplementations<Attrs>()\<close>. The closing \<^verbatim>\<open>OPENVINO_ASSERT\<close> throws when
  the vector is empty.
\<close>

definition ExecutorFactoryNew_filter ::
  "('a, 'p) ExecutorImplementation list \<Rightarrow> ('a, 'p) Config \<Rightarrow> string \<Rightarrow>
   ('a, 'p) ExecutorFactoryNew \<Rightarrow> error + ('a, 'p) ExecutorFactoryNew" where
  "ExecutorFactoryNew_filter implementations key implementationPriority factory =
     (let suitable =
            filter_loop implementations key implementationPriority
              (suitableImplementations factory)
      in if suitable = []
         then Inl (Fatal ''No implementations supports the provided key'')
         else Inr (factory\<lparr>suitableImplementations := suitable\<rparr>))"

text \<open>\<^verbatim>\<open>std::find_if\<close>: the first element that satisfies the predicate, if any.\<close>

fun find_if :: "('x \<Rightarrow> bool) \<Rightarrow> 'x list \<Rightarrow> 'x option" where
  "find_if pred [] = None"
| "find_if pred (x # xs) = (if pred x then Some x else find_if pred xs)"

text \<open>\<^verbatim>\<open>ExecutorFactoryNew::select\<close>.\<close>

definition ExecutorFactoryNew_select ::
  "('a, 'p) ExecutorFactoryNew \<Rightarrow> ('a, 'p) Config \<Rightarrow> error + ('a, 'p) ExecutorImplementation" where
  "ExecutorFactoryNew_select factory key =
     (case find_if (\<lambda>implementation.
                      isShapeAgnostic implementation \<or> isShapeSuitable implementation key)
             (suitableImplementations factory) of
        None \<Rightarrow> Inl (Fatal ''Failed to selected an implemetation'')
      | Some selectedImplementation \<Rightarrow> Inr selectedImplementation)"

section \<open>Concrete keys and stub implementations\<close>

text \<open>
  Stub implementations whose predicates are constant: a name, a shape tolerance, whether
  the stub supports every key or none, and whether it finds every shape suitable or none.
\<close>

definition stub ::
  "string \<Rightarrow> ShapeTolerance \<Rightarrow> bool \<Rightarrow> bool \<Rightarrow> (unit, unit) ExecutorImplementation" where
  "stub n tolerance supported suitable =
     \<lparr>m_name = n, m_shapeRelation = tolerance,
      m_isSupported = Some (\<lambda>key. supported),
      m_isFullyCompliant = None,
      m_isShapeSuitable = Some (\<lambda>key. suitable)\<rparr>"

text \<open>A key without descriptors, attributes or post-operations, for the stubs.\<close>

definition stub_key :: "(unit, unit) Config" where
  "stub_key = \<lparr>descs = \<lparr>src = [], dst = []\<rparr>, attrs = (), postOps = ()\<rparr>"

text \<open>
  A key of the fully-connected node: data of shape \<open>2 \<times> 3 \<times> 4\<close>, weights of shape
  \<open>8 \<times> 4\<close>, no bias (the descriptor of the empty memory, of undefined precision), and an
  output of shape \<open>2 \<times> 3 \<times> 8\<close>, with the given data, weight and output precisions and
  the given layout of the data.
\<close>

definition fc_key :: "Type \<Rightarrow> Type \<Rightarrow> Type \<Rightarrow> LayoutType \<Rightarrow> (FCAttrs, unit) Config" where
  "fc_key srcType weiType dstType srcLayout =
     \<lparr>descs =
        \<lparr>src = [\<lparr>getPrecision = srcType, getShape = [Some 2, Some 3, Some 4],
                  layoutTag = srcLayout\<rparr>,
                 \<lparr>getPrecision = weiType, getShape = [Some 8, Some 4], layoutTag = ncsp\<rparr>,
                 \<lparr>getPrecision = undefined_t, getShape = [Some 0], layoutTag = ncsp\<rparr>],
         dst = [\<lparr>getPrecision = dstType, getShape = [Some 2, Some 3, Some 8],
                  layoutTag = ncsp\<rparr>]\<rparr>,
      attrs = FCAttrs_default,
      postOps = ()\<rparr>"


section \<open>Equality of the attributes\<close>

lemma FCAttrs_eq_true_iff:
  "FCAttrs_eq lhs rhs = Inr True \<longleftrightarrow>
     withBias lhs = withBias rhs \<and>
     weightsNonTransposed lhs = weightsNonTransposed rhs \<and>
     sparseWeights lhs = sparseWeights rhs \<and>
     (\<exists>m m' s s'.
        decompressionMultiplyPtr lhs = Some m \<and> decompressionMultiplyPtr rhs = Some m' \<and>
        decompressionSubtractPtr lhs = Some s \<and> decompressionSubtractPtr rhs = Some s' \<and>
        getStaticDims m = getStaticDims m' \<and> getStaticDims m = getStaticDims s') \<and>
     length (dequantizationScales lhs) = length (dequantizationScales rhs)"
  by (auto simp: FCAttrs_eq_def Let_def split: option.splits)

text \<open>
  Claim C1. Equality of attributes is meant to be by content and therefore reflexive;
  two attribute values that agree in every component and carry no decompression tensors
  should compare equal. The comparison operator does not do this: on the default
  attributes (no decompression tensors) compared with themselves it answers false.
\<close>

theorem FCAttrs_eq_default_not_reflexive:
  "FCAttrs_eq FCAttrs_default FCAttrs_default = Inr False"
  by (simp add: FCAttrs_eq_def FCAttrs_default_def)

section \<open>Properties of the precision translation\<close>

lemma match_vec_iff:
  "length vals \<le> length patterns \<Longrightarrow>
   match_vec patterns vals = Inr (\<forall>i<length vals. vals ! i \<in> patterns ! i)"
  by (auto simp: match_vec_def list_all_length)

text \<open>Entries that do not cover the types are passed over by the loop.\<close>

lemma getTypeConfiguration_loop_skip:
  assumes "\<forall>e\<in>set before. length inputs \<le> length (fst (fst e)) \<and>
             \<not> ((\<forall>i<length inputs. inputs ! i \<in> fst (fst e) ! i) \<and> output \<in> snd (fst e))"
  shows "getTypeConfiguration_loop (before @ rest) inputs output =
         getTypeConfiguration_loop rest inputs output"
  using assms
  by (induction before) (auto simp: match_vec_iff match_def)

text \<open>
  Claim C4. The lookup is first-match-wins in declared order. Let the table be
  \<open>before @ rule # after\<close>, where no entry of \<open>before\<close> covers the concrete types (its
  input masks do not all contain the corresponding source type, or its output mask does not
  contain the destination type) and \<open>rule\<close> covers them. Then the result is what the
  translator of \<open>rule\<close> computes from the concrete types, whatever the entries of
  \<open>after\<close> are, also when some of them cover the types too. Every entry looked at has at
  least as many input masks as there are sources (the assertion of \<^verbatim>\<open>match\<close>), and
  the destination descriptor exists.
\<close>

theorem getTypeConfiguration_first_match_wins:
  assumes "dst descriptors = d # ds"
    and "\<forall>e\<in>set before. length (src descriptors) \<le> length (fst (fst e)) \<and>
           \<not> ((\<forall>i<length (src descriptors). getPrecision (src descriptors ! i) \<in> fst (fst e) ! i)
               \<and> getPrecision d \<in> snd (fst e))"
    and "length (src descriptors) \<le> length inPattern"
    and "\<forall>i<length (src descriptors). getPrecision (src descriptors ! i) \<in> inPattern ! i"
    and "getPrecision d \<in> outPattern"
  shows "getTypeConfiguration (before @ ((inPattern, outPattern), translator) # after) descriptors =
         translator (map getPrecision (src descriptors)) (getPrecision d)"
proof -
  let ?inputs = "map getPrecision (src descriptors)"
  have skip: "getTypeConfiguration_loop (before @ ((inPattern, outPattern), translator) # after)
                ?inputs (getPrecision d) =
              getTypeConfiguration_loop (((inPattern, outPattern), translator) # after)
                ?inputs (getPrecision d)"
    using assms(2) by (intro getTypeConfiguration_loop_skip) simp
  have hit: "match_vec inPattern ?inputs = Inr True"
    using assms(3,4) by (simp add: match_vec_iff)
  show ?thesis
    using assms(1,5) skip hit by (simp add: getTypeConfiguration_def match_def)
qed

text \<open>
  On the table of the fully-connected implementation, data \<^verbatim>\<open>u8\<close> with weights
  \<^verbatim>\<open>i8\<close> is covered by the seventh entry (quantization) and by the last one (force
  everything to \<^verbatim>\<open>f32\<close>); the seventh decides.
\<close>

theorem getTypeConfiguration_first_match_wins_witness:
  "getTypeConfiguration (dnnlFCTypeMapping (- {i8}) f32) (descs (fc_key u8 i8 u8 ncsp)) =
     Inr ([u8, i8, undefined_t], u8)"
proof -
  let ?before =
    "[(([{bf16}, {bf16}, UNIV], {bf16, f32}), pt bypass bypass out out),
      (([{f16}, {f16}, UNIV], {f16, f32}), pt bypass bypass out out),
      (([{f32, bf16, f16}, UNIV, UNIV], {i8, u8}), pt bypass bypass (in_id 0) (in_id 0)),
      (([{f32}, {f16, bf16}, UNIV], UNIV), pt bypass bypass (in_id 0) (in_id 0)),
      (([{bf16}, {f16}, UNIV], UNIV), pt bypass bypass (in_id 0) (in_id 0)),
      (([{f16}, {bf16}, UNIV], UNIV), pt bypass bypass (in_id 0) (in_id 0))]"
  let ?after =
    "[(([{f32, bf16}, {u8, nf4, u4, i4}, UNIV], UNIV), pt bypass bypass (in_id 0) (in_id 0)),
      (([{u8, i8}, - {i8}, UNIV], UNIV), everyone (just f32 f32)),
      (([UNIV, UNIV, UNIV], UNIV), everyone (just f32 f32))]"
  let ?D = "descs (fc_key u8 i8 u8 ncsp)"
  let ?d = "\<lparr>getPrecision = u8, getShape = [Some 2, Some 3, Some 8], layoutTag = ncsp\<rparr>"
  have table: "dnnlFCTypeMapping (- {i8}) f32 =
                 ?before @ (([{u8, i8}, {i8}, UNIV], UNIV), pt bypass bypass bypass out) # ?after"
    by (simp add: dnnlFCTypeMapping_def)
  have h1: "dst ?D = ?d # []"
    by (simp add: fc_key_def)
  have h2: "\<forall>e\<in>set ?before. length (src ?D) \<le> length (fst (fst e)) \<and>
              \<not> ((\<forall>i<length (src ?D). getPrecision (src ?D ! i) \<in> fst (fst e) ! i)
                  \<and> getPrecision ?d \<in> snd (fst e))"
    by (simp add: fc_key_def All_less_Suc2)
  have h3: "length (src ?D) \<le> length [{u8, i8}, {i8}, UNIV]"
    by (simp add: fc_key_def)
  have h4: "\<forall>i<length (src ?D). getPrecision (src ?D ! i) \<in> [{u8, i8}, {i8}, UNIV] ! i"
    by (simp add: fc_key_def All_less_Suc2)
  have h5: "getPrecision ?d \<in> UNIV"
    by simp
  have "getTypeConfiguration (dnnlFCTypeMapping (- {i8}) f32) ?D =
          pt bypass bypass bypass out (map getPrecision (src ?D)) (getPrecision ?d)"
    unfolding table
    by (rule getTypeConfiguration_first_match_wins [OF h1 h2 h3 h4 h5])
  then show ?thesis
    by (simp add: fc_key_def pt_def PortsTranslation_def bypass_def out_def)
qed

text \<open>
  Claim C7. A miss in the table is recovered locally: when no entry of the table covers
  the concrete types, the lookup raises no error and answers \<^verbatim>\<open>f32\<close> for every input
  port and for the output port. As before, every entry has at least as many input masks as
  there are sources, and the destination descriptor exists.
\<close>

theorem getTypeConfiguration_miss_defaults_f32:
  assumes "dst descriptors = d # ds"
    and "\<forall>e\<in>set mapping. length (src descriptors) \<le> length (fst (fst e)) \<and>
           \<not> ((\<forall>i<length (src descriptors). getPrecision (src descriptors ! i) \<in> fst (fst e) ! i)
               \<and> getPrecision d \<in> snd (fst e))"
  shows "getTypeConfiguration mapping descriptors =
         Inr (replicate (length (src descriptors)) f32, f32)"
proof -
  have "getTypeConfiguration_loop (mapping @ []) (map getPrecision (src descriptors)) (getPrecision d) =
        getTypeConfiguration_loop [] (map getPrecision (src descriptors)) (getPrecision d)"
    using assms(2) by (intro getTypeConfiguration_loop_skip) simp
  then show ?thesis
    using assms(1) by (simp add: getTypeConfiguration_def)
qed

text \<open>
  A table made of the first two entries of the fully-connected table (the \<^verbatim>\<open>bf16\<close> and
  the \<^verbatim>\<open>f16\<close> rule) covers no quantized key.
\<close>

theorem getTypeConfiguration_miss_defaults_f32_witness:
  "getTypeConfiguration
     [(([{bf16}, {bf16}, UNIV], {bf16, f32}), pt bypass bypass out out),
      (([{f16}, {f16}, UNIV], {f16, f32}), pt bypass bypass out out)]
     (descs (fc_key u8 i8 u8 ncsp)) =
   Inr ([f32, f32, f32], f32)"
proof -
  let ?mapping =
    "[(([{bf16}, {bf16}, UNIV], {bf16, f32}), pt bypass bypass out out),
      (([{f16}, {f16}, UNIV], {f16, f32}), pt bypass bypass out out)]"
  let ?D = "descs (fc_key u8 i8 u8 ncsp)"
  let ?d = "\<lparr>getPrecision = u8, getShape = [Some 2, Some 3, Some 8], layoutTag = ncsp\<rparr>"
  have h1: "dst ?D = ?d # []"
    by (simp add: fc_key_def)
  have h2: "\<forall>e\<in>set ?mapping. length (src ?D) \<le> length (fst (fst e)) \<and>
              \<not> ((\<forall>i<length (src ?D). getPrecision (src ?D ! i) \<in> fst (fst e) ! i)
                  \<and> getPrecision ?d \<in> snd (fst e))"
    by (simp add: fc_key_def All_less_Suc2)
  have "getTypeConfiguration ?mapping ?D = Inr (replicate (length (src ?D)) f32, f32)"
    by (rule getTypeConfiguration_miss_defaults_f32 [OF h1 h2])
  then show ?thesis
    by (simp add: fc_key_def numeral_3_eq_3)
qed

section \<open>Properties of filtering and selection\<close>

lemma find_if_Some_iff:
  "find_if P xs = Some x \<longleftrightarrow>
     (\<exists>before after. xs = before @ x # after \<and> P x \<and> (\<forall>y\<in>set before. \<not> P y))"
proof (induction xs)
  case Nil
  then show ?case by simp
next
  case (Cons a xs)
  show ?case
  proof (cases "P a")
    case True
    have "(\<exists>before after. a # xs = before @ x # after \<and> P x \<and> (\<forall>y\<in>set before. \<not> P y))
            \<longleftrightarrow> a = x"
    proof
      assume "\<exists>before after. a # xs = before @ x # after \<and> P x \<and> (\<forall>y\<in>set before. \<not> P y)"
      then obtain before after where
        h: "a # xs = before @ x # after" "\<forall>y\<in>set before. \<not> P y" by blast
      show "a = x" using h True by (cases before) auto
    next
      assume "a = x"
      then have "a # xs = [] @ x # xs \<and> P x \<and> (\<forall>y\<in>set []. \<not> P y)"
        using True by simp
      then show "\<exists>before after. a # xs = before @ x # after \<and> P x \<and> (\<forall>y\<in>set before. \<not> P y)"
        by blast
    qed
    then show ?thesis using True by auto
  next
    case False
    have "(\<exists>before after. a # xs = before @ x # after \<and> P x \<and> (\<forall>y\<in>set before. \<not> P y)) \<longleftrightarrow>
          (\<exists>before after. xs = before @ x # after \<and> P x \<and> (\<forall>y\<in>set before. \<not> P y))"
    proof
      assume "\<exists>before after. a # xs = before @ x # after \<and> P x \<and> (\<forall>y\<in>set before. \<not> P y)"
      then obtain before after where
        h: "a # xs = before @ x # after" "P x" "\<forall>y\<in>set before. \<not> P y" by blast
      then obtain b' where "before = a # b'" using False by (cases before) auto
      then show "\<exists>before after. xs = before @ x # after \<and> P x \<and> (\<forall>y\<in>set before. \<not> P y)"
        using h by auto
    next
      assume "\<exists>before after. xs = before @ x # after \<and> P x \<and> (\<forall>y\<in>set before. \<not> P y)"
      then obtain before after where
        h: "xs = before @ x # after" "P x" "\<forall>y\<in>set before. \<not> P y" by blast
      then have "a # xs = (a # before) @ x # after \<and> P x \<and> (\<forall>y\<in>set (a # before). \<not> P y)"
        using False by simp
      then show "\<exists>before after. a # xs = before @ x # after \<and> P x \<and> (\<forall>y\<in>set before. \<not> P y)"
        by blast
    qed
    then show ?thesis using False Cons.IH by simp
  qed
qed

lemma find_if_None_iff: "find_if P xs = None \<longleftrightarrow> (\<forall>y\<in>set xs. \<not> P y)"
  by (induction xs) auto

lemma find_if_append:
  "find_if P (xs @ ys) = (case find_if P xs of Some x \<Rightarrow> Some x | None \<Rightarrow> find_if P ys)"
  by (induction xs) auto

lemma find_if_filter:
  "find_if P (filter Q xs) = find_if (\<lambda>x. Q x \<and> P x) xs"
  by (induction xs) auto

text \<open>
  Claim C9. \<^verbatim>\<open>select\<close> returns an implementation exactly when it is the first
  element of the filtered list that is shape-agnostic or shape-suitable for the key (every
  element before it is neither), and it fails with the fatal error exactly when no element
  of the list is shape-agnostic or shape-suitable.
\<close>

theorem select_returns_first_suitable:
  "(ExecutorFactoryNew_select factory key = Inr impl \<longleftrightarrow>
      (\<exists>before after.
         suitableImplementations factory = before @ impl # after \<and>
         (isShapeAgnostic impl \<or> isShapeSuitable impl key) \<and>
         (\<forall>q\<in>set before. \<not> (isShapeAgnostic q \<or> isShapeSuitable q key)))) \<and>
   (ExecutorFactoryNew_select factory key = Inl (Fatal ''Failed to selected an implemetation'') \<longleftrightarrow>
      (\<forall>q\<in>set (suitableImplementations factory).
         \<not> (isShapeAgnostic q \<or> isShapeSuitable q key))) \<and>
   (\<forall>e. ExecutorFactoryNew_select factory key = Inl e \<longrightarrow>
      e = Fatal ''Failed to selected an implemetation'')"
proof -
  let ?P = "\<lambda>q. isShapeAgnostic q \<or> isShapeSuitable q key"
  have 1: "ExecutorFactoryNew_select factory key = Inr impl \<longleftrightarrow>
             find_if ?P (suitableImplementations factory) = Some impl"
    by (simp add: ExecutorFactoryNew_select_def split: option.splits)
  have 2: "ExecutorFactoryNew_select factory key = Inl e \<longleftrightarrow>
             e = Fatal ''Failed to selected an implemetation'' \<and>
             find_if ?P (suitableImplementations factory) = None" for e
    by (auto simp: ExecutorFactoryNew_select_def split: option.splits)
  show ?thesis
    unfolding 1 2 find_if_Some_iff find_if_None_iff by simp
qed

text \<open>
  Among three stubs that support everything, the first (shape dependent, no shape
  suitable) is passed over and the second is returned although the third is
  shape-agnostic; a list holding only the first makes \<^verbatim>\<open>select\<close> fail.
\<close>

theorem select_returns_first_suitable_witness:
  "ExecutorFactoryNew_select
     \<lparr>suitableImplementations =
        [stub ''a'' Dependant True False, stub ''b'' Dependant True True,
         stub ''c'' Agnostic True True]\<rparr> stub_key =
     Inr (stub ''b'' Dependant True True) \<and>
   ExecutorFactoryNew_select
     \<lparr>suitableImplementations = [stub ''a'' Dependant True False]\<rparr> stub_key =
     Inl (Fatal ''Failed to selected an implemetation'')"
proof -
  let ?a = "stub ''a'' Dependant True False"
  let ?b = "stub ''b'' Dependant True True"
  let ?c = "stub ''c'' Agnostic True True"
  have na: "\<not> (isShapeAgnostic ?a \<or> isShapeSuitable ?a stub_key)"
    by (simp add: isShapeAgnostic_def isShapeSuitable_def stub_def)
  have b: "isShapeAgnostic ?b \<or> isShapeSuitable ?b stub_key"
    by (simp add: isShapeSuitable_def stub_def)
  have "\<exists>before after.
          suitableImplementations \<lparr>suitableImplementations = [?a, ?b, ?c]\<rparr> = before @ ?b # after \<and>
          (isShapeAgnostic ?b \<or> isShapeSuitable ?b stub_key) \<and>
          (\<forall>q\<in>set before. \<not> (isShapeAgnostic q \<or> isShapeSuitable q stub_key))"
  proof (intro exI conjI)
    show "suitableImplementations \<lparr>suitableImplementations = [?a, ?b, ?c]\<rparr> = [?a] @ ?b # [?c]"
      by simp
    show "isShapeAgnostic ?b \<or> isShapeSuitable ?b stub_key" by (rule b)
    show "\<forall>q\<in>set [?a]. \<not> (isShapeAgnostic q \<or> isShapeSuitable q stub_key)"
      using na by simp
  qed
  then have first: "ExecutorFactoryNew_select \<lparr>suitableImplementations = [?a, ?b, ?c]\<rparr> stub_key
                      = Inr ?b"
    using select_returns_first_suitable
            [of "\<lparr>suitableImplementations = [?a, ?b, ?c]\<rparr>" stub_key ?b]
    by blast
  have "\<forall>q\<in>set (suitableImplementations \<lparr>suitableImplementations = [?a]\<rparr>).
          \<not> (isShapeAgnostic q \<or> isShapeSuitable q stub_key)"
    using na by simp
  then have none: "ExecutorFactoryNew_select \<lparr>suitableImplementations = [?a]\<rparr> stub_key
                     = Inl (Fatal ''Failed to selected an implemetation'')"
    using select_returns_first_suitable
            [of "\<lparr>suitableImplementations = [?a]\<rparr>" stub_key ?a]
    by blast
  show ?thesis using first none by (rule conjI)
qed

lemma filter_loop_no_agnostic:
  assumes "\<forall>q\<in>set impls.
             \<not> (((prio = [] \<or> name q = prio) \<and> isSupported q key) \<and> isShapeAgnostic q)"
  shows "filter_loop (impls @ rest) key prio acc =
         filter_loop rest key prio
           (acc @ filter (\<lambda>q. (prio = [] \<or> name q = prio) \<and> isSupported q key) impls)"
  using assms
  by (induction impls arbitrary: acc) auto

lemma filter_loop_set:
  "set (filter_loop impls key prio acc) \<subseteq> set acc \<union> {q \<in> set impls. isSupported q key}"
  by (induction impls key prio acc rule: filter_loop.induct) auto

text \<open>
  Claim C5. \<^verbatim>\<open>filter\<close> never hands an empty list to the caller: it either throws
  the fatal error "No implementations supports the provided key", or it returns with a
  list that is not empty and in which every implementation supports the key. The factory
  is one whose list holds only implementations that support the key; the factory as
  constructed, with the empty list, is one.
\<close>

theorem filter_never_returns_empty:
  assumes "\<forall>q\<in>set (suitableImplementations factory). isSupported q key"
  shows "ExecutorFactoryNew_filter implementations key prio factory =
           Inl (Fatal ''No implementations supports the provided key'') \<or>
         (\<exists>factory'. ExecutorFactoryNew_filter implementations key prio factory = Inr factory' \<and>
            suitableImplementations factory' \<noteq> [] \<and>
            (\<forall>q\<in>set (suitableImplementations factory'). isSupported q key))"
proof (cases "filter_loop implementations key prio (suitableImplementations factory) = []")
  case True
  then show ?thesis by (simp add: ExecutorFactoryNew_filter_def)
next
  case False
  have "\<forall>q\<in>set (filter_loop implementations key prio (suitableImplementations factory)).
          isSupported q key"
    using assms filter_loop_set[of implementations key prio "suitableImplementations factory"]
    by auto
  with False show ?thesis by (simp add: ExecutorFactoryNew_filter_def Let_def)
qed

text \<open>
  On the newly constructed factory: a registry with a supporting stub yields a list that is
  not empty and holds supporting stubs only, and a registry whose only stub supports
  nothing makes \<^verbatim>\<open>filter\<close> throw.
\<close>

theorem filter_never_returns_empty_witness:
  "(\<exists>factory'.
      ExecutorFactoryNew_filter
        [stub ''p0'' Dependant False True, stub ''p2'' Dependant True True] stub_key []
        ExecutorFactoryNew_ctor = Inr factory' \<and>
      suitableImplementations factory' \<noteq> [] \<and>
      list_all (\<lambda>q. isSupported q stub_key) (suitableImplementations factory')) \<and>
   ExecutorFactoryNew_filter [stub ''p0'' Dependant False True] stub_key []
     ExecutorFactoryNew_ctor = Inl (Fatal ''No implementations supports the provided key'')"
proof -
  let ?p0 = "stub ''p0'' Dependant False True"
  let ?p2 = "stub ''p2'' Dependant True True"
  have fresh: "\<forall>q\<in>set (suitableImplementations ExecutorFactoryNew_ctor).
                 isSupported q stub_key"
    by (simp add: ExecutorFactoryNew_ctor_def)
  have ok: "ExecutorFactoryNew_filter [?p0, ?p2] stub_key [] ExecutorFactoryNew_ctor \<noteq>
              Inl (Fatal ''No implementations supports the provided key'')"
    by (simp add: ExecutorFactoryNew_filter_def ExecutorFactoryNew_ctor_def isSupported_def
          isShapeAgnostic_def stub_def)
  have a: "\<exists>factory'.
      ExecutorFactoryNew_filter [?p0, ?p2] stub_key [] ExecutorFactoryNew_ctor = Inr factory' \<and>
      suitableImplementations factory' \<noteq> [] \<and>
      list_all (\<lambda>q. isSupported q stub_key) (suitableImplementations factory')"
    using filter_never_returns_empty [OF fresh, of "[?p0, ?p2]" "[]"] ok
    by (auto simp: list_all_iff)
  have none: "\<not> (\<exists>factory'.
      ExecutorFactoryNew_filter [?p0] stub_key [] ExecutorFactoryNew_ctor = Inr factory' \<and>
      suitableImplementations factory' \<noteq> [] \<and>
      (\<forall>q\<in>set (suitableImplementations factory'). isSupported q stub_key))"
    by (simp add: ExecutorFactoryNew_filter_def ExecutorFactoryNew_ctor_def isSupported_def
          stub_def)
  have b: "ExecutorFactoryNew_filter [?p0] stub_key [] ExecutorFactoryNew_ctor =
             Inl (Fatal ''No implementations supports the provided key'')"
    using filter_never_returns_empty [OF fresh, of "[?p0]" "[]"] none by blast
  show ?thesis using a b by (rule conjI)
qed

text \<open>
  Claim C2. Let \<open>p\<close> be the first implementation of the registry that \<^verbatim>\<open>filter\<close>
  accepts (its name passes the priority filter, if one is given, and it supports the key)
  and that is shape-agnostic; \<open>higher\<close> are the implementations registered before it,
  \<open>lower\<close> those registered after it. On a newly constructed factory, \<^verbatim>\<open>filter\<close>
  returns with the accepted implementations of \<open>higher\<close> followed by \<open>p\<close>: it stops at
  \<open>p\<close>. Every later \<^verbatim>\<open>select\<close>, for whatever key, returns the first accepted
  implementation of \<open>higher\<close> that is shape-suitable for that key, or else \<open>p\<close>;
  what is registered in \<open>lower\<close> plays no part.
\<close>

theorem agnostic_stops_filtering:
  assumes "isShapeAgnostic p"
    and "(prio = [] \<or> name p = prio) \<and> isSupported p key"
    and "\<forall>q\<in>set higher.
           \<not> (((prio = [] \<or> name q = prio) \<and> isSupported q key) \<and> isShapeAgnostic q)"
  shows "\<exists>factory'.
           ExecutorFactoryNew_filter (higher @ p # lower) key prio ExecutorFactoryNew_ctor =
             Inr factory' \<and>
           suitableImplementations factory' =
             filter (\<lambda>q. (prio = [] \<or> name q = prio) \<and> isSupported q key) higher @ [p] \<and>
           (\<forall>key'. ExecutorFactoryNew_select factory' key' =
              Inr (case find_if (\<lambda>q. ((prio = [] \<or> name q = prio) \<and> isSupported q key) \<and>
                                      (isShapeAgnostic q \<or> isShapeSuitable q key')) higher of
                     Some q \<Rightarrow> q
                   | None \<Rightarrow> p))"
proof -
  let ?acc = "\<lambda>q. (prio = [] \<or> name q = prio) \<and> isSupported q key"
  have step: "filter_loop (p # lower) key prio acc = acc @ [p]" for acc
    using assms(1,2) by auto
  have loop: "filter_loop (higher @ p # lower) key prio [] = filter ?acc higher @ [p]"
    by (simp only: filter_loop_no_agnostic[OF assms(3)] step append_Nil)
  let ?f = "\<lparr>suitableImplementations = filter ?acc higher @ [p]\<rparr>"
  have 1: "ExecutorFactoryNew_filter (higher @ p # lower) key prio ExecutorFactoryNew_ctor = Inr ?f"
    using loop by (simp add: ExecutorFactoryNew_filter_def ExecutorFactoryNew_ctor_def)
  have 2: "ExecutorFactoryNew_select ?f key' =
             Inr (case find_if (\<lambda>q. ?acc q \<and> (isShapeAgnostic q \<or> isShapeSuitable q key')) higher of
                    Some q \<Rightarrow> q | None \<Rightarrow> p)" for key'
    using assms(1)
    by (simp add: ExecutorFactoryNew_select_def find_if_append find_if_filter split: option.splits)
  show ?thesis using 1 2 by simp
qed

text \<open>
  The three stubs of the specification: \<open>p0\<close> shape dependent and unsupported, \<open>p1\<close>
  shape-agnostic and supported, \<open>p2\<close> shape dependent, supported and suitable for every
  shape. The filtered list is \<open>[p1]\<close>, and \<^verbatim>\<open>select\<close> returns \<open>p1\<close> for every key.
\<close>

theorem agnostic_stops_filtering_witness:
  "\<exists>factory'.
     ExecutorFactoryNew_filter
       [stub ''p0'' Dependant False True, stub ''p1'' Agnostic True False,
        stub ''p2'' Dependant True True] stub_key [] ExecutorFactoryNew_ctor = Inr factory' \<and>
     suitableImplementations factory' = [stub ''p1'' Agnostic True False] \<and>
     (\<forall>key'. ExecutorFactoryNew_select factory' key' = Inr (stub ''p1'' Agnostic True False))"
proof -
  let ?p0 = "stub ''p0'' Dependant False True"
  let ?p1 = "stub ''p1'' Agnostic True False"
  let ?p2 = "stub ''p2'' Dependant True True"
  have a: "isShapeAgnostic ?p1"
    by (simp add: isShapeAgnostic_def stub_def)
  have b: "([] = [] \<or> name ?p1 = []) \<and> isSupported ?p1 stub_key"
    by (simp add: isSupported_def stub_def)
  have c: "\<forall>q\<in>set [?p0].
             \<not> ((([] = [] \<or> name q = []) \<and> isSupported q stub_key) \<and> isShapeAgnostic q)"
    by (simp add: isSupported_def stub_def)
  have unsupported: "\<not> isSupported ?p0 stub_key"
    by (simp add: isSupported_def stub_def)
  from agnostic_stops_filtering [OF a b c, where lower = "[?p2]"]
  show ?thesis
    using unsupported by simp
qed

section \<open>Properties of the compliance check and of the coercion\<close>

text \<open>The loop over the sources checks every descriptor against its own port.\<close>

lemma fullyMatchConfiguration_loop_iff:
  "fullyMatchConfiguration_loop k xs ts ls \<longleftrightarrow>
     (\<forall>j<length xs. (getPrecision (xs ! j) = ts ! (k + j) \<or> getPrecision (xs ! j) = undefined_t)
                      \<and> layoutTag (xs ! j) = ls ! (k + j))"
proof (induction xs arbitrary: k)
  case Nil
  then show ?case by simp
next
  case (Cons x xs)
  have split: "(\<forall>j<Suc (length xs). Q j) \<longleftrightarrow> Q 0 \<and> (\<forall>j<length xs. Q (Suc j))" for Q
    by (auto simp: less_Suc_eq_0_disj)
  show ?case
    by (simp add: Cons.IH split one_of_def hasLayoutType_def)
qed

lemma fullyMatchConfiguration_Inr:
  assumes "length (src ds) \<le> length ts" "length (src ds) \<le> length (srcLayoutConfig lc)"
    and "dst ds = d # rest"
  shows "fullyMatchConfiguration ds (ts, td) lc =
           Inr ((\<forall>i<length (src ds).
                   (getPrecision (src ds ! i) = ts ! i \<or> getPrecision (src ds ! i) = undefined_t) \<and>
                   layoutTag (src ds ! i) = srcLayoutConfig lc ! i) \<and>
                (getPrecision d = td \<or> getPrecision d = undefined_t) \<and>
                layoutTag d = dstLayoutConfig lc)"
  using assms
  by (auto simp: fullyMatchConfiguration_def Let_def fullyMatchConfiguration_loop_iff
        one_of_def hasLayoutType_def)

text \<open>What the coercion loop pushes for each source, when it returns.\<close>

lemma createOptimalDescriptors_loop_Inr:
  "createOptimalDescriptors_loop k xs ts ls = Inr ys \<Longrightarrow>
     length ys = length xs \<and>
     (\<forall>j<length xs. ys ! j =
        (if getPrecision (xs ! j) = undefined_t \<or> getPrecision (xs ! j) = ts ! (k + j)
         then xs ! j
         else createSharedDesc (ls ! (k + j)) (ts ! (k + j)) (getShape (xs ! j))))"
proof (induction xs arbitrary: k ys)
  case Nil
  then show ?case by simp
next
  case (Cons x xs)
  from Cons.prems obtain d ds where
    ys: "ys = d # ds" and
    ds: "createOptimalDescriptors_loop (Suc k) xs ts ls = Inr ds" and
    d: "d = (if getPrecision x = undefined_t \<or> getPrecision x = ts ! k then x
             else createSharedDesc (ls ! k) (ts ! k) (getShape x))"
    by (auto simp: Let_def split: if_splits sum.splits)
  from Cons.IH[OF ds] have ih: "length ds = length xs"
    "\<forall>j<length xs. ds ! j =
        (if getPrecision (xs ! j) = undefined_t \<or> getPrecision (xs ! j) = ts ! (Suc k + j)
         then xs ! j
         else createSharedDesc (ls ! (Suc k + j)) (ts ! (Suc k + j)) (getShape (xs ! j)))"
    by simp_all
  show ?case
  proof (intro conjI allI impI)
    show "length ys = length (x # xs)" using ys ih(1) by simp
  next
    fix j assume "j < length (x # xs)"
    then show "ys ! j =
        (if getPrecision ((x # xs) ! j) = undefined_t \<or> getPrecision ((x # xs) ! j) = ts ! (k + j)
         then (x # xs) ! j
         else createSharedDesc (ls ! (k + j)) (ts ! (k + j)) (getShape ((x # xs) ! j)))"
      using ys d ih(2) by (cases j) simp_all
  qed
qed

text \<open>The coercion loop returns when the configuration has an entry for every source.\<close>

lemma createOptimalDescriptors_loop_total:
  "k + length xs \<le> length ts \<Longrightarrow> k + length xs \<le> length ls \<Longrightarrow>
   \<exists>ys. createOptimalDescriptors_loop k xs ts ls = Inr ys"
proof (induction xs arbitrary: k)
  case Nil
  then show ?case by simp
next
  case (Cons x xs)
  from Cons.prems have "Suc k + length xs \<le> length ts" "Suc k + length xs \<le> length ls"
    by simp_all
  from Cons.IH[OF this] obtain ds where
    "createOptimalDescriptors_loop (Suc k) xs ts ls = Inr ds" by blast
  moreover have "k < length ts" "k < length ls" using Cons.prems by simp_all
  ultimately show ?case by (simp add: Let_def)
qed

lemma createOptimalDescriptors_Inr:
  assumes "createOptimalDescriptors ds (ts, td) lc = Inr r"
  shows "\<exists>d rest. dst ds = d # rest \<and>
           length (src r) = length (src ds) \<and>
           (\<forall>j<length (src ds). src r ! j =
              (if getPrecision (src ds ! j) = undefined_t \<or> getPrecision (src ds ! j) = ts ! j
               then src ds ! j
               else createSharedDesc (srcLayoutConfig lc ! j) (ts ! j) (getShape (src ds ! j)))) \<and>
           dst r = [if getPrecision d = undefined_t \<or> getPrecision d = td then d
                    else createSharedDesc (dstLayoutConfig lc) td (getShape d)]"
proof -
  from assms obtain srcs d rest where
    l: "createOptimalDescriptors_loop 0 (src ds) ts (srcLayoutConfig lc) = Inr srcs" and
    d: "dst ds = d # rest" and
    r: "r = \<lparr>src = srcs,
              dst = [if getPrecision d = undefined_t \<or> getPrecision d = td then d
                     else createSharedDesc (dstLayoutConfig lc) td (getShape d)]\<rparr>"
    by (auto simp: createOptimalDescriptors_def Let_def split: sum.splits list.splits if_splits)
  from createOptimalDescriptors_loop_Inr[OF l] d r show ?thesis by simp
qed

lemma createOptimalDescriptors_total:
  assumes "length (src ds) \<le> length ts" "length (src ds) \<le> length (srcLayoutConfig lc)"
    and "dst ds \<noteq> []"
  shows "\<exists>r. createOptimalDescriptors ds (ts, td) lc = Inr r"
proof -
  from createOptimalDescriptors_loop_total[of 0 "src ds" ts "srcLayoutConfig lc"] assms(1,2)
  obtain srcs where "createOptimalDescriptors_loop 0 (src ds) ts (srcLayoutConfig lc) = Inr srcs"
    by auto
  moreover obtain d rest where "dst ds = d # rest" using assms(3) by (cases "dst ds") auto
  ultimately show ?thesis by (simp add: createOptimalDescriptors_def Let_def)
qed

text \<open>When the check succeeds, spelled out.\<close>

lemma fullyMatchConfiguration_True_iff:
  "fullyMatchConfiguration ds (ts, td) lc = Inr True \<longleftrightarrow>
     length (src ds) \<le> length ts \<and> length (src ds) \<le> length (srcLayoutConfig lc) \<and>
     (\<forall>j<length (src ds).
        (getPrecision (src ds ! j) = ts ! j \<or> getPrecision (src ds ! j) = undefined_t) \<and>
        hasLayoutType (src ds ! j) (srcLayoutConfig lc ! j)) \<and>
     (\<exists>d rest. dst ds = d # rest \<and>
        (getPrecision d = td \<or> getPrecision d = undefined_t) \<and>
        hasLayoutType d (dstLayoutConfig lc))"
  by (auto simp: fullyMatchConfiguration_def Let_def fullyMatchConfiguration_loop_iff
        one_of_def hasLayoutType_def split: list.splits if_splits)

text \<open>
  Claim C10. A descriptor of undefined precision is type-compliant with any target and is
  never coerced. For the source at port \<open>i\<close>: the check succeeds exactly when the
  sizes are right, this descriptor has the configured layout, and all other descriptors
  pass; the type configured for port \<open>i\<close> plays no part, so the check answers the same
  whatever type \<open>t\<close> the configuration names there; and whenever the coercion returns,
  it returns this very descriptor at port \<open>i\<close>. The same holds for the destination
  descriptor and the destination type. The coercion does return when the configuration
  has a type and a layout for every source and the destination exists.
\<close>

theorem undefined_precision_compliant_and_kept:
  assumes "getPrecision desc = undefined_t"
  shows "(i < length (src ds) \<and> src ds ! i = desc \<longrightarrow>
            (fullyMatchConfiguration ds (ts, td) lc = Inr True \<longleftrightarrow>
               length (src ds) \<le> length ts \<and> length (src ds) \<le> length (srcLayoutConfig lc) \<and>
               hasLayoutType desc (srcLayoutConfig lc ! i) \<and>
               (\<forall>j<length (src ds). j \<noteq> i \<longrightarrow>
                  (getPrecision (src ds ! j) = ts ! j \<or>
                   getPrecision (src ds ! j) = undefined_t) \<and>
                  hasLayoutType (src ds ! j) (srcLayoutConfig lc ! j)) \<and>
               (\<exists>d others. dst ds = d # others \<and>
                  (getPrecision d = td \<or> getPrecision d = undefined_t) \<and>
                  hasLayoutType d (dstLayoutConfig lc))) \<and>
            fullyMatchConfiguration ds (ts[i := t], td) lc = fullyMatchConfiguration ds (ts, td) lc \<and>
            (fullyMatchConfiguration ds (ts, td) lc = Inr True \<longrightarrow>
               hasLayoutType desc (srcLayoutConfig lc ! i)) \<and>
            (\<forall>r. createOptimalDescriptors ds (ts, td) lc = Inr r \<longrightarrow> src r ! i = desc)) \<and>
         (dst ds = desc # rest \<longrightarrow>
            (fullyMatchConfiguration ds (ts, td) lc = Inr True \<longleftrightarrow>
               length (src ds) \<le> length ts \<and> length (src ds) \<le> length (srcLayoutConfig lc) \<and>
               (\<forall>j<length (src ds).
                  (getPrecision (src ds ! j) = ts ! j \<or>
                   getPrecision (src ds ! j) = undefined_t) \<and>
                  hasLayoutType (src ds ! j) (srcLayoutConfig lc ! j)) \<and>
               hasLayoutType desc (dstLayoutConfig lc)) \<and>
            fullyMatchConfiguration ds (ts, t) lc = fullyMatchConfiguration ds (ts, td) lc \<and>
            (fullyMatchConfiguration ds (ts, td) lc = Inr True \<longrightarrow>
               hasLayoutType desc (dstLayoutConfig lc)) \<and>
            (\<forall>r. createOptimalDescriptors ds (ts, td) lc = Inr r \<longrightarrow> dst r = [desc])) \<and>
         (length (src ds) \<le> length ts \<and> length (src ds) \<le> length (srcLayoutConfig lc) \<and>
            dst ds \<noteq> [] \<longrightarrow> (\<exists>r. createOptimalDescriptors ds (ts, td) lc = Inr r))"
proof (intro conjI impI)
  assume h: "i < length (src ds) \<and> src ds ! i = desc"
  have at_i: "(\<forall>j<length (src ds).
                 (getPrecision (src ds ! j) = ts ! j \<or> getPrecision (src ds ! j) = undefined_t) \<and>
                 hasLayoutType (src ds ! j) (srcLayoutConfig lc ! j)) \<longleftrightarrow>
              hasLayoutType desc (srcLayoutConfig lc ! i) \<and>
              (\<forall>j<length (src ds). j \<noteq> i \<longrightarrow>
                 (getPrecision (src ds ! j) = ts ! j \<or> getPrecision (src ds ! j) = undefined_t) \<and>
                 hasLayoutType (src ds ! j) (srcLayoutConfig lc ! j))"
    (is "?all \<longleftrightarrow> ?lay \<and> ?others")
  proof
    assume ?all
    then show "?lay \<and> ?others" using h by auto
  next
    assume r: "?lay \<and> ?others"
    show ?all
    proof (intro allI impI)
      fix j assume "j < length (src ds)"
      then show "(getPrecision (src ds ! j) = ts ! j \<or> getPrecision (src ds ! j) = undefined_t) \<and>
                 hasLayoutType (src ds ! j) (srcLayoutConfig lc ! j)"
        using r h assms by (cases "j = i") auto
    qed
  qed
  show "fullyMatchConfiguration ds (ts, td) lc = Inr True \<longleftrightarrow>
          length (src ds) \<le> length ts \<and> length (src ds) \<le> length (srcLayoutConfig lc) \<and>
          hasLayoutType desc (srcLayoutConfig lc ! i) \<and>
          (\<forall>j<length (src ds). j \<noteq> i \<longrightarrow>
             (getPrecision (src ds ! j) = ts ! j \<or> getPrecision (src ds ! j) = undefined_t) \<and>
             hasLayoutType (src ds ! j) (srcLayoutConfig lc ! j)) \<and>
          (\<exists>d others. dst ds = d # others \<and>
             (getPrecision d = td \<or> getPrecision d = undefined_t) \<and>
             hasLayoutType d (dstLayoutConfig lc))"
    unfolding fullyMatchConfiguration_True_iff at_i by blast
  have loop: "fullyMatchConfiguration_loop 0 (src ds) (ts[i := t]) ls =
              fullyMatchConfiguration_loop 0 (src ds) ts ls" for ls
    unfolding fullyMatchConfiguration_loop_iff
  proof -
    have "((getPrecision (src ds ! j) = ts[i := t] ! (0 + j) \<or>
             getPrecision (src ds ! j) = undefined_t) \<and>
            layoutTag (src ds ! j) = ls ! (0 + j)) =
          ((getPrecision (src ds ! j) = ts ! (0 + j) \<or>
             getPrecision (src ds ! j) = undefined_t) \<and>
            layoutTag (src ds ! j) = ls ! (0 + j))" for j
      using h assms by (cases "j = i") simp_all
    then show "(\<forall>j<length (src ds).
                  (getPrecision (src ds ! j) = ts[i := t] ! (0 + j) \<or>
                   getPrecision (src ds ! j) = undefined_t) \<and> layoutTag (src ds ! j) = ls ! (0 + j)) =
               (\<forall>j<length (src ds).
                  (getPrecision (src ds ! j) = ts ! (0 + j) \<or>
                   getPrecision (src ds ! j) = undefined_t) \<and> layoutTag (src ds ! j) = ls ! (0 + j))"
      by simp
  qed
  show "fullyMatchConfiguration ds (ts[i := t], td) lc = fullyMatchConfiguration ds (ts, td) lc"
    by (simp add: fullyMatchConfiguration_def Let_def loop split: list.splits)
  show "fullyMatchConfiguration ds (ts, td) lc = Inr True \<Longrightarrow>
          hasLayoutType desc (srcLayoutConfig lc ! i)"
    using h unfolding fullyMatchConfiguration_True_iff by blast
  show "\<forall>r. createOptimalDescriptors ds (ts, td) lc = Inr r \<longrightarrow> src r ! i = desc"
  proof (intro allI impI)
    fix r assume "createOptimalDescriptors ds (ts, td) lc = Inr r"
    from createOptimalDescriptors_Inr[OF this] h assms show "src r ! i = desc" by auto
  qed
next
  assume h: "dst ds = desc # rest"
  show "fullyMatchConfiguration ds (ts, td) lc = Inr True \<longleftrightarrow>
          length (src ds) \<le> length ts \<and> length (src ds) \<le> length (srcLayoutConfig lc) \<and>
          (\<forall>j<length (src ds).
             (getPrecision (src ds ! j) = ts ! j \<or> getPrecision (src ds ! j) = undefined_t) \<and>
             hasLayoutType (src ds ! j) (srcLayoutConfig lc ! j)) \<and>
          hasLayoutType desc (dstLayoutConfig lc)"
    unfolding fullyMatchConfiguration_True_iff using h assms by simp
  show "fullyMatchConfiguration ds (ts, t) lc = fullyMatchConfiguration ds (ts, td) lc"
    using h assms by (simp add: fullyMatchConfiguration_def Let_def one_of_def)
  show "fullyMatchConfiguration ds (ts, td) lc = Inr True \<Longrightarrow>
          hasLayoutType desc (dstLayoutConfig lc)"
    using h unfolding fullyMatchConfiguration_True_iff by auto
  show "\<forall>r. createOptimalDescriptors ds (ts, td) lc = Inr r \<longrightarrow> dst r = [desc]"
  proof (intro allI impI)
    fix r assume "createOptimalDescriptors ds (ts, td) lc = Inr r"
    from createOptimalDescriptors_Inr[OF this] h assms show "dst r = [desc]" by auto
  qed
next
  assume "length (src ds) \<le> length ts \<and> length (src ds) \<le> length (srcLayoutConfig lc) \<and>
            dst ds \<noteq> []"
  then show "\<exists>r. createOptimalDescriptors ds (ts, td) lc = Inr r"
    using createOptimalDescriptors_total by blast
qed

text \<open>
  A key whose bias and output descriptors have undefined precision: the check succeeds
  against a configuration naming \<^verbatim>\<open>i8\<close> for the bias and \<^verbatim>\<open>u8\<close> for the output,
  and the coercion hands both descriptors back.
\<close>

theorem undefined_precision_compliant_and_kept_witness:
  "fullyMatchConfiguration (descs (fc_key f32 f32 undefined_t ncsp)) ([f32, f32, i8], u8)
     dnnlFCLayoutConfig = Inr True \<and>
   (\<exists>r. createOptimalDescriptors (descs (fc_key f32 f32 undefined_t ncsp)) ([f32, f32, i8], u8)
           dnnlFCLayoutConfig = Inr r \<and>
         src r ! 2 = src (descs (fc_key f32 f32 undefined_t ncsp)) ! 2 \<and>
         dst r = dst (descs (fc_key f32 f32 undefined_t ncsp)))"
proof -
  let ?D = "descs (fc_key f32 f32 undefined_t ncsp)"
  let ?L = "dnnlFCLayoutConfig"
  let ?bias = "\<lparr>getPrecision = undefined_t, getShape = [Some 0], layoutTag = ncsp\<rparr>"
  let ?out = "\<lparr>getPrecision = undefined_t, getShape = [Some 2, Some 3, Some 8],
               layoutTag = ncsp\<rparr>"
  have ub: "getPrecision ?bias = undefined_t" by simp
  have uo: "getPrecision ?out = undefined_t" by simp
  have pos: "2 < length (src ?D) \<and> src ?D ! 2 = ?bias" by (simp add: fc_key_def)
  have dd: "dst ?D = ?out # []" by (simp add: fc_key_def)
  have sizes: "length (src ?D) \<le> length [f32, f32, i8] \<and>
               length (src ?D) \<le> length (srcLayoutConfig ?L) \<and> dst ?D \<noteq> []"
    by (simp add: fc_key_def dnnlFCLayoutConfig_def)
  note at_bias =
    undefined_precision_compliant_and_kept
      [OF ub, where i = 2 and ds = ?D and ts = "[f32, f32, i8]" and t = f32 and td = u8
         and lc = ?L and rest = "[]"]
  note at_out =
    undefined_precision_compliant_and_kept
      [OF uo, where i = 0 and ds = ?D and ts = "[f32, f32, i8]" and t = f32 and td = u8
         and lc = ?L and rest = "[]"]
  have lay: "hasLayoutType ?bias (srcLayoutConfig ?L ! 2)"
    by (simp add: hasLayoutType_def dnnlFCLayoutConfig_def)
  have others: "\<forall>j<length (src ?D). j \<noteq> 2 \<longrightarrow>
                  (getPrecision (src ?D ! j) = [f32, f32, i8] ! j \<or>
                   getPrecision (src ?D ! j) = undefined_t) \<and>
                  hasLayoutType (src ?D ! j) (srcLayoutConfig ?L ! j)"
    by (simp add: fc_key_def hasLayoutType_def dnnlFCLayoutConfig_def All_less_Suc2)
  have out_ok: "\<exists>d others. dst ?D = d # others \<and>
                  (getPrecision d = u8 \<or> getPrecision d = undefined_t) \<and>
                  hasLayoutType d (dstLayoutConfig ?L)"
    by (simp add: fc_key_def hasLayoutType_def dnnlFCLayoutConfig_def)
  have m: "fullyMatchConfiguration ?D ([f32, f32, i8], u8) ?L = Inr True"
    using at_bias pos sizes lay others out_ok by blast
  obtain r where r: "createOptimalDescriptors ?D ([f32, f32, i8], u8) ?L = Inr r"
    using at_bias sizes by blast
  have "src r ! 2 = ?bias" using at_bias pos r by blast
  moreover have "dst r = [?out]" using at_out dd r by blast
  ultimately have "createOptimalDescriptors ?D ([f32, f32, i8], u8) ?L = Inr r \<and>
                   src r ! 2 = src ?D ! 2 \<and> dst r = dst ?D"
    using r pos dd by simp
  then have "\<exists>r. createOptimalDescriptors ?D ([f32, f32, i8], u8) ?L = Inr r \<and>
                 src r ! 2 = src ?D ! 2 \<and> dst r = dst ?D"
    by blast
  with m show ?thesis by (rule conjI)
qed




text \<open>
  Claim C3. A configuration produced by a non-compliant coercion should be reported
  compliant when it is submitted again to the same implementation. For
  \<^verbatim>\<open>"fullyconnected_dnnl"\<close> it is not. A key whose precisions are all \<^verbatim>\<open>f32\<close>
  and whose data descriptor has the channels-last layout is not compliant (the layout is
  not the configured one), and the coercion hands the key back as it is, because
  \<^verbatim>\<open>createOptimalDescriptors\<close> keeps every descriptor whose precision is already the
  configured one without looking at its layout. Submitting the coerced key is the same
  call again, with the same answer.
\<close>

theorem coercion_keeps_wrong_layout:
  "isFullyCompliant (fullyconnected_dnnl not_i8 defaultFloatPrecision)
     (fc_key f32 f32 f32 nspc) =
     Inr (False, fc_key f32 f32 f32 nspc)"
  by (simp add: isFullyCompliant_def fullyconnected_dnnl_def isFullyCompliantCommon_def fc_key_def
       getTypeConfiguration_def dnnlFCTypeMapping_def match_vec_def match_def pt_def everyone_def
       PortsTranslation_def just_def fxx_def fullyMatchConfiguration_def dnnlFCLayoutConfig_def one_of_def
       hasLayoutType_def createOptimalDescriptors_def Let_def)

text \<open>
  The types alone can also need a second coercion: for \<^verbatim>\<open>f16\<close> data, \<^verbatim>\<open>i8\<close>
  weights and a \<^verbatim>\<open>u8\<close> output the third entry of the table asks for an \<^verbatim>\<open>f16\<close>
  output; the coerced key is covered by the last entry only, which asks for \<^verbatim>\<open>f32\<close>
  everywhere.
\<close>

lemma coercion_of_types_not_idempotent:
  "isFullyCompliant (fullyconnected_dnnl not_i8 defaultFloatPrecision)
     (fc_key f16 i8 u8 ncsp) =
     Inr (False, fc_key f16 i8 f16 ncsp) \<and>
   isFullyCompliant (fullyconnected_dnnl not_i8 defaultFloatPrecision)
     (fc_key f16 i8 f16 ncsp) =
     Inr (False, fc_key f32 f32 f32 ncsp)"
  by (simp add: isFullyCompliant_def fullyconnected_dnnl_def isFullyCompliantCommon_def fc_key_def
       getTypeConfiguration_def dnnlFCTypeMapping_def match_vec_def match_def pt_def everyone_def
       PortsTranslation_def just_def fxx_def bypass_def in_id_def out_def
       fullyMatchConfiguration_def dnnlFCLayoutConfig_def one_of_def
       hasLayoutType_def createOptimalDescriptors_def createSharedDesc_def Let_def)

text \<open>
  Where the round trip does hold: when the translator asks the coerced key for the same
  types again, and every descriptor of the key that the coercion keeps (its precision is
  the configured one or undefined) already has the configured layout, the coerced key is
  reported compliant.
\<close>

lemma coercion_round_trip_when_stable:
  assumes res: "isFullyCompliantCommon key typeMapping lc = Inr (False, key')"
    and ideal: "getTypeConfiguration typeMapping (descs key) = Inr (ts, td)"
    and stable: "getTypeConfiguration typeMapping (descs key') = Inr (ts, td)"
    and s1: "length (src (descs key)) \<le> length ts"
    and s2: "length (src (descs key)) \<le> length (srcLayoutConfig lc)"
    and one: "dst (descs key) = [d]"
    and kept_src: "\<forall>i<length (src (descs key)).
                     getPrecision (src (descs key) ! i) = ts ! i \<or>
                     getPrecision (src (descs key) ! i) = undefined_t \<longrightarrow>
                     layoutTag (src (descs key) ! i) = srcLayoutConfig lc ! i"
    and kept_dst: "getPrecision d = td \<or> getPrecision d = undefined_t \<longrightarrow>
                     layoutTag d = dstLayoutConfig lc"
  shows "isFullyCompliantCommon key' typeMapping lc = Inr (True, key')"
proof -
  from res ideal obtain r where
    r: "createOptimalDescriptors (descs key) (ts, td) lc = Inr r" and
    k': "key' = \<lparr>descs = r, attrs = attrs key, postOps = postOps key\<rparr>"
    by (auto simp: isFullyCompliantCommon_def split: sum.splits if_splits)
  from createOptimalDescriptors_Inr[OF r] one have
    len: "length (src r) = length (src (descs key))" and
    srcs: "\<forall>j<length (src (descs key)). src r ! j =
            (if getPrecision (src (descs key) ! j) = undefined_t \<or>
                getPrecision (src (descs key) ! j) = ts ! j
             then src (descs key) ! j
             else createSharedDesc (srcLayoutConfig lc ! j) (ts ! j)
                    (getShape (src (descs key) ! j)))" and
    dsts: "dst r = [if getPrecision d = undefined_t \<or> getPrecision d = td then d
                    else createSharedDesc (dstLayoutConfig lc) td (getShape d)]"
    by auto
  let ?d' = "if getPrecision d = undefined_t \<or> getPrecision d = td then d
             else createSharedDesc (dstLayoutConfig lc) td (getShape d)"
  have a: "\<forall>i<length (src r).
             (getPrecision (src r ! i) = ts ! i \<or> getPrecision (src r ! i) = undefined_t) \<and>
             layoutTag (src r ! i) = srcLayoutConfig lc ! i"
    using srcs kept_src len by (auto simp: createSharedDesc_def)
  have b: "(getPrecision ?d' = td \<or> getPrecision ?d' = undefined_t) \<and>
           layoutTag ?d' = dstLayoutConfig lc"
    using kept_dst by (auto simp: createSharedDesc_def)
  have "fullyMatchConfiguration r (ts, td) lc = Inr True"
    using fullyMatchConfiguration_Inr[of r ts lc ?d' "[]" td] s1 s2 len dsts a b by simp
  then show ?thesis
    using stable k' by (simp add: isFullyCompliantCommon_def)
qed

end
